theory Spec2Isabelle
  imports Main "HOL-Library.AList"
begin

section \<open>The event-type edit page: data model\<close>

text \<open>
  The development embeds the page component \<^verbatim>\<open>apps/web/pages/event-types/[type]/index.tsx\<close>:
  the draft (\<^verbatim>\<open>FormValues\<close>), the two submit handlers with their validation sequence,
  the payload handed to \<^verbatim>\<open>updateMutation.mutate\<close>, the preparation of the metadata
  before the form is seeded, the slug dialog and the tab lookup.

  JavaScript values that the page only passes through are kept as JSON-like values.
  Numbers are modelled as \<^typ>\<open>int\<close> (the only number tests in the file are truthiness
  tests, which an integer fails exactly at \<open>0\<close>; \<^verbatim>\<open>NaN\<close> has no counterpart here).
  A \<^verbatim>\<open>Date\<close> is its epoch value.
\<close>

datatype jsval =
    JUndefined
  | JNull
  | JBool bool
  | JNum int
  | JStr string
  | JArr "jsval list"
  | JObj "(string \<times> jsval) list"

text \<open>
  \<^verbatim>\<open>IntervalLimit\<close> (imported type): an object with the optional keys
  \<^verbatim>\<open>PER_DAY\<close>, \<^verbatim>\<open>PER_WEEK\<close>, \<^verbatim>\<open>PER_MONTH\<close>, \<^verbatim>\<open>PER_YEAR\<close>, each a number.
\<close>

record IntervalLimit =
  PER_DAY :: "int option"
  PER_WEEK :: "int option"
  PER_MONTH :: "int option"
  PER_YEAR :: "int option"

text \<open>
  The parts of the event-type metadata that the page reads: \<^verbatim>\<open>multipleDuration\<close>,
  \<^verbatim>\<open>bookerLayouts\<close>, \<^verbatim>\<open>apps\<close> (an object keyed by app slug) and \<^verbatim>\<open>config\<close>.
  An absent key is \<open>None\<close>.
\<close>

record AppData =
  enabled :: "bool option"
  paymentOption :: "string option"

record MetadataConfig =
  useHostSchedulesForTeamEvent :: "bool option"

record Metadata =
  multipleDuration :: "int list option"
  md_bookerLayouts :: "jsval option"
  apps :: "(string \<times> AppData) list option"
  config :: "MetadataConfig option"

text \<open>A child event type of a managed event, with the owner it belongs to.\<close>

record ChildOwner =
  owner_id :: int
  owner_name :: string
  eventTypeSlugs :: "string list"

record ChildrenEventType =
  owner :: ChildOwner
  child_slug :: string
  created :: bool

record PeriodDates =
  startDate :: int
  endDate :: int

text \<open>The draft, field by field as the type \<^verbatim>\<open>FormValues\<close> declares it.\<close>

record FormValues =
  title :: string
  eventTitle :: string
  eventName :: string
  slug :: string
  length_fv :: int
  offsetStart :: int
  description :: string
  disableGuests :: bool
  requiresConfirmation :: bool
  recurringEvent :: "jsval option"
  schedulingType :: "string option"
  hidden :: bool
  hideCalendarNotes :: bool
  hashedLink :: "string option"
  locations :: jsval
  customInputs :: jsval
  schedule :: "int option"
  periodType :: string
  periodDays :: int
  periodCountCalendarDays :: string
  periodDates :: PeriodDates
  seatsPerTimeSlot :: "int option"
  seatsShowAttendees :: "bool option"
  seatsPerTimeSlotEnabled :: bool
  minimumBookingNotice :: int
  minimumBookingNoticeInDurationType :: int
  beforeBufferTime :: int
  afterBufferTime :: int
  slotInterval :: "int option"
  metadata :: "Metadata option"
  destinationCalendar :: jsval
  successRedirectUrl :: string
  durationLimits :: "IntervalLimit option"
  bookingLimits :: "IntervalLimit option"
  children :: "ChildrenEventType list"
  hosts :: jsval
  bookingFields :: jsval
  availability :: "jsval option"
  bookerLayouts :: "jsval option"


section \<open>The environment of the component\<close>

text \<open>
  What the handlers close over: the fetched record (of which the page's logic reads the
  identifier, the metadata and the schedule), the \<^verbatim>\<open>team\<close> prop, the translation
  function \<^verbatim>\<open>t\<close>, and the two imported validators, whose code is not part of the page
  and which are therefore parameters here.
\<close>

record EventTypeSetup =
  et_id :: int
  et_metadata :: "Metadata option"
  et_schedule :: "int option"

record env =
  eventType :: EventTypeSetup
  team :: "jsval option"
  t_locale :: "string \<Rightarrow> string"
  validateIntervalLimitOrder :: "IntervalLimit \<Rightarrow> bool"
  validateBookerLayouts :: "jsval option \<Rightarrow> string option"

text \<open>
  Each constructor is one \<^verbatim>\<open>throw new Error(t(key))\<close> of the handlers; \<open>message_key\<close>
  gives the key that is translated into the message.
\<close>

datatype error =
    BookingLimitsError
  | DurationLimitsError
  | LayoutError string
  | MultipleDurationError
  | MultipleDurationDefaultError
  | SeatsAndNoShowFeeError

fun message_key :: "error \<Rightarrow> string" where
  "message_key BookingLimitsError = ''event_setup_booking_limits_error''"
| "message_key DurationLimitsError = ''event_setup_duration_limits_error''"
| "message_key (LayoutError k) = k"
| "message_key MultipleDurationError = ''event_setup_multiple_duration_error''"
| "message_key MultipleDurationDefaultError = ''event_setup_multiple_duration_default_error''"
| "message_key SeatsAndNoShowFeeError = ''seats_and_no_show_fee_error''"

section \<open>JavaScript objects: the draft as an object, rest and spread\<close>

text \<open>
  A value of a payload. \<open>PNullish\<close> stands for \<^verbatim>\<open>null\<close> and \<^verbatim>\<open>undefined\<close> alike.
\<close>

datatype pval =
    PNullish
  | PBool bool
  | PNum int
  | PStr string
  | PDate int
  | PJson jsval
  | PDates PeriodDates
  | PLimits IntervalLimit
  | PMetadata Metadata
  | PChildren "ChildrenEventType list"

type_synonym jsobject = "(string \<times> pval) list"

definition nullable :: "('a \<Rightarrow> pval) \<Rightarrow> 'a option \<Rightarrow> pval" where
  "nullable f x = (case x of None \<Rightarrow> PNullish | Some y \<Rightarrow> f y)"

text \<open>
  The draft as the object the handlers receive: one key for each field that
  \<^verbatim>\<open>FormValues\<close> declares, in the order of the declaration.
\<close>

definition valuesObject :: "FormValues \<Rightarrow> jsobject" where
  "valuesObject v =
    [ (''title'', PStr (title v)),
      (''eventTitle'', PStr (eventTitle v)),
      (''eventName'', PStr (eventName v)),
      (''slug'', PStr (slug v)),
      (''length'', PNum (length_fv v)),
      (''offsetStart'', PNum (offsetStart v)),
      (''description'', PStr (description v)),
      (''disableGuests'', PBool (disableGuests v)),
      (''requiresConfirmation'', PBool (requiresConfirmation v)),
      (''recurringEvent'', nullable PJson (recurringEvent v)),
      (''schedulingType'', nullable PStr (schedulingType v)),
      (''hidden'', PBool (hidden v)),
      (''hideCalendarNotes'', PBool (hideCalendarNotes v)),
      (''hashedLink'', nullable PStr (hashedLink v)),
      (''locations'', PJson (locations v)),
      (''customInputs'', PJson (customInputs v)),
      (''schedule'', nullable PNum (schedule v)),
      (''periodType'', PStr (periodType v)),
      (''periodDays'', PNum (periodDays v)),
      (''periodCountCalendarDays'', PStr (periodCountCalendarDays v)),
      (''periodDates'', PDates (periodDates v)),
      (''seatsPerTimeSlot'', nullable PNum (seatsPerTimeSlot v)),
      (''seatsShowAttendees'', nullable PBool (seatsShowAttendees v)),
      (''seatsPerTimeSlotEnabled'', PBool (seatsPerTimeSlotEnabled v)),
      (''minimumBookingNotice'', PNum (minimumBookingNotice v)),
      (''minimumBookingNoticeInDurationType'', PNum (minimumBookingNoticeInDurationType v)),
      (''beforeBufferTime'', PNum (beforeBufferTime v)),
      (''afterBufferTime'', PNum (afterBufferTime v)),
      (''slotInterval'', nullable PNum (slotInterval v)),
      (''metadata'', nullable PMetadata (metadata v)),
      (''destinationCalendar'', PJson (destinationCalendar v)),
      (''successRedirectUrl'', PStr (successRedirectUrl v)),
      (''durationLimits'', nullable PLimits (durationLimits v)),
      (''bookingLimits'', nullable PLimits (bookingLimits v)),
      (''children'', PChildren (children v)),
      (''hosts'', PJson (hosts v)),
      (''bookingFields'', PJson (bookingFields v)),
      (''availability'', nullable PJson (availability v)),
      (''bookerLayouts'', nullable PJson (bookerLayouts v)) ]"

text \<open>
  \<^verbatim>\<open>const { k1, ..., kn, ...input } = values\<close>: the rest holds the keys that are not named.
\<close>

definition rest_without :: "string list \<Rightarrow> jsobject \<Rightarrow> jsobject" where
  "rest_without ks obj = filter (\<lambda>kv. fst kv \<notin> set ks) obj"

text \<open>
  \<^verbatim>\<open>{ ...input, k1: v1, ..., kn: vn }\<close>: each property in turn replaces the value of a key
  that is there already, or is added at the end.
\<close>

definition spread_with :: "jsobject \<Rightarrow> jsobject \<Rightarrow> jsobject" where
  "spread_with obj props = foldl (\<lambda>acc kv. AList.update (fst kv) (snd kv) acc) obj props"

definition has_key :: "jsobject \<Rightarrow> string \<Rightarrow> bool" where
  "has_key obj k = (map_of obj k \<noteq> None)"

section \<open>Truthiness\<close>

fun js_truthy :: "jsval \<Rightarrow> bool" where
  "js_truthy JUndefined = False"
| "js_truthy JNull = False"
| "js_truthy (JBool b) = b"
| "js_truthy (JNum n) = (n \<noteq> 0)"
| "js_truthy (JStr s) = (s \<noteq> [])"
| "js_truthy (JArr xs) = True"
| "js_truthy (JObj kvs) = True"

definition truthy_number :: "int option \<Rightarrow> bool" where
  "truthy_number n = (case n of None \<Rightarrow> False | Some k \<Rightarrow> k \<noteq> 0)"

definition truthy_string :: "string option \<Rightarrow> bool" where
  "truthy_string s = (case s of None \<Rightarrow> False | Some k \<Rightarrow> k \<noteq> [])"

definition truthy_value :: "jsval option \<Rightarrow> bool" where
  "truthy_value x = (case x of None \<Rightarrow> False | Some j \<Rightarrow> js_truthy j)"


section \<open>The validation sequence of the submit handlers\<close>

text \<open>
  Each function below is one guarded \<^verbatim>\<open>throw\<close> of the handlers: \<open>Some e\<close> when the
  statement throws, \<open>None\<close> when control passes on.

  \<^verbatim>\<open>if (bookingLimits) { if (!validateIntervalLimitOrder(bookingLimits)) throw ... }\<close>
\<close>

definition bookingLimitsCheck :: "env \<Rightarrow> FormValues \<Rightarrow> error option" where
  "bookingLimitsCheck env values =
    (case bookingLimits values of
       None \<Rightarrow> None
     | Some l \<Rightarrow> if \<not> validateIntervalLimitOrder env l then Some BookingLimitsError else None)"

definition durationLimitsCheck :: "env \<Rightarrow> FormValues \<Rightarrow> error option" where
  "durationLimitsCheck env values =
    (case durationLimits values of
       None \<Rightarrow> None
     | Some l \<Rightarrow> if \<not> validateIntervalLimitOrder env l then Some DurationLimitsError else None)"

text \<open>
  \<^verbatim>\<open>const layoutError = validateBookerLayouts(metadata?.bookerLayouts || null);\<close>
  \<^verbatim>\<open>if (layoutError) throw new Error(t(layoutError));\<close>
\<close>

definition bookerLayoutsArg :: "Metadata option \<Rightarrow> jsval option" where
  "bookerLayoutsArg md =
    (case md of
       None \<Rightarrow> None
     | Some m \<Rightarrow> if truthy_value (md_bookerLayouts m) then md_bookerLayouts m else None)"

definition bookerLayoutsCheck :: "env \<Rightarrow> FormValues \<Rightarrow> error option" where
  "bookerLayoutsCheck env values =
    (let layoutError = validateBookerLayouts env (bookerLayoutsArg (metadata values))
     in case layoutError of
          None \<Rightarrow> None
        | Some k \<Rightarrow> if truthy_string layoutError then Some (LayoutError k) else None)"

text \<open>
  \<^verbatim>\<open>if (metadata?.multipleDuration !== undefined) {\<close>
  \<^verbatim>\<open>  if (metadata?.multipleDuration.length < 1) throw ...\<close>
  \<^verbatim>\<open>  else if (!input.length && !metadata?.multipleDuration?.includes(input.length)) throw ...\<close>
  \<^verbatim>\<open>}\<close>
\<close>

definition multipleDurationCheck :: "FormValues \<Rightarrow> error option" where
  "multipleDurationCheck values =
    (case Option.bind (metadata values) multipleDuration of
       None \<Rightarrow> None
     | Some durations \<Rightarrow>
         if length durations < 1 then Some MultipleDurationError
         else if length_fv values = 0 \<and> length_fv values \<notin> set durations
              then Some MultipleDurationDefaultError
              else None)"

text \<open>
  \<^verbatim>\<open>if (metadata?.apps?.stripe?.paymentOption === "HOLD" && seatsPerTimeSlot) throw ...\<close>
\<close>

definition stripePaymentOption :: "Metadata option \<Rightarrow> string option" where
  "stripePaymentOption md =
    Option.bind (Option.bind (Option.bind md apps) (\<lambda>a. map_of a ''stripe'')) paymentOption"

definition seatsPaymentCheck :: "FormValues \<Rightarrow> error option" where
  "seatsPaymentCheck values =
    (if stripePaymentOption (metadata values) = Some ''HOLD''
        \<and> truthy_number (seatsPerTimeSlot values)
     then Some SeatsAndNoShowFeeError
     else None)"

section \<open>The state of the page and the two submit handlers\<close>

text \<open>
  The state that the handlers and the dialog act on: the current draft
  (\<^verbatim>\<open>formMethods.getValues()\<close>), the list held by \<^verbatim>\<open>slugExistsChildrenDialogOpen\<close>,
  the payloads given to \<^verbatim>\<open>updateMutation.mutate\<close> so far (latest last), and the
  telemetry events sent.
\<close>

record page_state =
  formValues :: FormValues
  slugExistsChildrenDialogOpen :: "ChildrenEventType list"
  mutateCalls :: "jsobject list"
  telemetryEvents :: "string list"

text \<open>The function \<^verbatim>\<open>handleSubmit\<close>: its destructuring, and the object it sends.\<close>

definition handleSubmit_input :: "FormValues \<Rightarrow> jsobject" where
  "handleSubmit_input values =
    rest_without
      [ ''periodDates'', ''periodCountCalendarDays'', ''beforeBufferTime'', ''afterBufferTime'',
        ''seatsPerTimeSlot'', ''seatsShowAttendees'', ''bookingLimits'', ''durationLimits'',
        ''recurringEvent'', ''locations'', ''metadata'', ''customInputs'', ''children'',
        ''seatsPerTimeSlotEnabled'', ''minimumBookingNoticeInDurationType'', ''bookerLayouts'' ]
      (valuesObject values)"

definition handleSubmit_payload :: "env \<Rightarrow> FormValues \<Rightarrow> jsobject" where
  "handleSubmit_payload env values =
    spread_with (handleSubmit_input values)
      [ (''locations'', PJson (locations values)),
        (''recurringEvent'', nullable PJson (recurringEvent values)),
        (''periodStartDate'', PDate (startDate (periodDates values))),
        (''periodEndDate'', PDate (endDate (periodDates values))),
        (''periodCountCalendarDays'', PBool (periodCountCalendarDays values = ''1'')),
        (''id'', PNum (et_id (eventType env))),
        (''beforeEventBuffer'', PNum (beforeBufferTime values)),
        (''afterEventBuffer'', PNum (afterBufferTime values)),
        (''bookingLimits'', nullable PLimits (bookingLimits values)),
        (''durationLimits'', nullable PLimits (durationLimits values)),
        (''seatsPerTimeSlot'', nullable PNum (seatsPerTimeSlot values)),
        (''seatsShowAttendees'', nullable PBool (seatsShowAttendees values)),
        (''metadata'', nullable PMetadata (metadata values)),
        (''customInputs'', PJson (customInputs values)),
        (''children'', PChildren (children values)) ]"

definition mutate :: "jsobject \<Rightarrow> page_state \<Rightarrow> page_state" where
  "mutate payload st = st\<lparr>mutateCalls := mutateCalls st @ [payload]\<rparr>"

definition handleSubmit :: "env \<Rightarrow> FormValues \<Rightarrow> page_state \<Rightarrow> (error + unit) \<times> page_state" where
  "handleSubmit env values st =
    (case bookingLimitsCheck env values of Some e \<Rightarrow> (Inl e, st) | None \<Rightarrow>
    (case durationLimitsCheck env values of Some e \<Rightarrow> (Inl e, st) | None \<Rightarrow>
    (case bookerLayoutsCheck env values of Some e \<Rightarrow> (Inl e, st) | None \<Rightarrow>
    (case multipleDurationCheck values of Some e \<Rightarrow> (Inl e, st) | None \<Rightarrow>
    (case seatsPaymentCheck values of Some e \<Rightarrow> (Inl e, st) | None \<Rightarrow>
       (Inr (), mutate (handleSubmit_payload env values) st))))))"

text \<open>
  The handler given inline to \<^verbatim>\<open><Form handleSubmit={...}>\<close>: its destructuring does
  not name \<^verbatim>\<open>children\<close>, \<^verbatim>\<open>minimumBookingNoticeInDurationType\<close> and
  \<^verbatim>\<open>bookerLayouts\<close>, which therefore stay in the rest; it has no seats check; and its
  object literal does not list \<^verbatim>\<open>children\<close>.
\<close>

definition formHandleSubmit_input :: "FormValues \<Rightarrow> jsobject" where
  "formHandleSubmit_input values =
    rest_without
      [ ''periodDates'', ''periodCountCalendarDays'', ''beforeBufferTime'', ''afterBufferTime'',
        ''seatsPerTimeSlot'', ''seatsShowAttendees'', ''bookingLimits'', ''durationLimits'',
        ''recurringEvent'', ''locations'', ''metadata'', ''customInputs'',
        ''seatsPerTimeSlotEnabled'' ]
      (valuesObject values)"

definition formHandleSubmit_payload :: "env \<Rightarrow> FormValues \<Rightarrow> jsobject" where
  "formHandleSubmit_payload env values =
    spread_with (formHandleSubmit_input values)
      [ (''locations'', PJson (locations values)),
        (''recurringEvent'', nullable PJson (recurringEvent values)),
        (''periodStartDate'', PDate (startDate (periodDates values))),
        (''periodEndDate'', PDate (endDate (periodDates values))),
        (''periodCountCalendarDays'', PBool (periodCountCalendarDays values = ''1'')),
        (''id'', PNum (et_id (eventType env))),
        (''beforeEventBuffer'', PNum (beforeBufferTime values)),
        (''afterEventBuffer'', PNum (afterBufferTime values)),
        (''bookingLimits'', nullable PLimits (bookingLimits values)),
        (''durationLimits'', nullable PLimits (durationLimits values)),
        (''seatsPerTimeSlot'', nullable PNum (seatsPerTimeSlot values)),
        (''seatsShowAttendees'', nullable PBool (seatsShowAttendees values)),
        (''metadata'', nullable PMetadata (metadata values)),
        (''customInputs'', PJson (customInputs values)) ]"

definition formHandleSubmit :: "env \<Rightarrow> FormValues \<Rightarrow> page_state \<Rightarrow> (error + unit) \<times> page_state" where
  "formHandleSubmit env values st =
    (case bookingLimitsCheck env values of Some e \<Rightarrow> (Inl e, st) | None \<Rightarrow>
    (case durationLimitsCheck env values of Some e \<Rightarrow> (Inl e, st) | None \<Rightarrow>
    (case bookerLayoutsCheck env values of Some e \<Rightarrow> (Inl e, st) | None \<Rightarrow>
    (case multipleDurationCheck values of Some e \<Rightarrow> (Inl e, st) | None \<Rightarrow>
       (Inr (), mutate (formHandleSubmit_payload env values) st)))))"

text \<open>
  The ordered sequence of checks as the specification lists it (section 4.2), to be
  compared with what \<open>handleSubmit\<close> does.
\<close>

definition validationRules :: "(env \<Rightarrow> FormValues \<Rightarrow> error option) list" where
  "validationRules =
    [ bookingLimitsCheck, durationLimitsCheck, bookerLayoutsCheck,
      (\<lambda>env. multipleDurationCheck), (\<lambda>env. seatsPaymentCheck) ]"

text \<open>The failure kind \<^verbatim>\<open>LimitOrderInvalid\<close> of the specification covers both limit errors.\<close>

definition LimitOrderInvalid :: "error \<Rightarrow> bool" where
  "LimitOrderInvalid e = (e = BookingLimitsError \<or> e = DurationLimitsError)"

section \<open>The order of interval limits\<close>

datatype IntervalLimitUnit = Day | Week | Month | Year

fun limit_of :: "IntervalLimit \<Rightarrow> IntervalLimitUnit \<Rightarrow> int option" where
  "limit_of l Day = PER_DAY l"
| "limit_of l Week = PER_WEEK l"
| "limit_of l Month = PER_MONTH l"
| "limit_of l Year = PER_YEAR l"

text \<open>The pairs (narrower unit, broader unit it is nested under).\<close>

definition nestedUnits :: "(IntervalLimitUnit \<times> IntervalLimitUnit) list" where
  "nestedUnits =
    [ (Day, Week), (Day, Month), (Day, Year), (Week, Month), (Week, Year), (Month, Year) ]"

text \<open>
  Modelled from the spec: \<^verbatim>\<open>validateIntervalLimitOrder\<close> is imported from
  \<^verbatim>\<open>@calcom/lib\<close> and its code is not among the sources. The specification says of
  it: every narrower time unit's limit must be at most the limit of any broader unit it
  is nested under.
\<close>

definition validateIntervalLimitOrder_model :: "IntervalLimit \<Rightarrow> bool" where
  "validateIntervalLimitOrder_model l =
    list_all
      (\<lambda>nb. case (limit_of l (fst nb), limit_of l (snd nb)) of
               (Some x, Some y) \<Rightarrow> x \<le> y
             | _ \<Rightarrow> True)
      nestedUnits"

section \<open>Preparing the metadata for the form\<close>

text \<open>
  Lines 191 to 204: for a team event with non-null metadata the key
  \<^verbatim>\<open>useHostSchedulesForTeamEvent\<close> is written into \<^verbatim>\<open>metadata.config\<close>; otherwise it
  is deleted where \<^verbatim>\<open>metadata\<close> and its \<^verbatim>\<open>config\<close> exist. The result is the
  \<^verbatim>\<open>metadata\<close> of the default values of the form.
\<close>

definition initMetadata :: "env \<Rightarrow> Metadata option" where
  "initMetadata env =
    (case et_metadata (eventType env) of
       None \<Rightarrow> None
     | Some m \<Rightarrow>
         if truthy_value (team env)
         then Some (m\<lparr>config := Some
                (case config m of
                   None \<Rightarrow>
                     \<lparr>useHostSchedulesForTeamEvent =
                        Some (truthy_number (et_schedule (eventType env)))\<rparr>
                 | Some c \<Rightarrow>
                     c\<lparr>useHostSchedulesForTeamEvent :=
                        Some (case useHostSchedulesForTeamEvent c of
                                Some b \<Rightarrow> (b = True)
                              | None \<Rightarrow> truthy_number (et_schedule (eventType env)))\<rparr>)\<rparr>)
         else Some (case config m of
                      None \<Rightarrow> m
                    | Some c \<Rightarrow> m\<lparr>config := Some (c\<lparr>useHostSchedulesForTeamEvent := None\<rparr>)\<rparr>))"

definition hostSchedulesKey :: "Metadata option \<Rightarrow> bool option" where
  "hostSchedulesKey md = Option.bind (Option.bind md config) useHostSchedulesForTeamEvent"

section \<open>The slug dialog\<close>

definition dialogOpen :: "page_state \<Rightarrow> bool" where
  "dialogOpen st = (length (slugExistsChildrenDialogOpen st) > 0)"

definition onOpenChange :: "page_state \<Rightarrow> page_state" where
  "onOpenChange st = st\<lparr>slugExistsChildrenDialogOpen := []\<rparr>"

text \<open>
  \<^verbatim>\<open>onConfirm\<close>: the promise of \<^verbatim>\<open>handleSubmit\<close> is not awaited, so the two statements
  after the call run whether it throws or not.
\<close>

definition onConfirm :: "env \<Rightarrow> page_state \<Rightarrow> page_state" where
  "onConfirm env st =
    (let st1 = snd (handleSubmit env (formValues st) st);
         st2 = st1\<lparr>telemetryEvents := telemetryEvents st1 @ [''slugReplacementAction'']\<rparr>
     in st2\<lparr>slugExistsChildrenDialogOpen := []\<rparr>)"

text \<open>
  The states the page can be in: it starts with the dialog list empty; the draft can be
  edited, the form submitted, the dialog confirmed or dismissed.
\<close>

inductive reachable :: "env \<Rightarrow> page_state \<Rightarrow> bool" for env :: env where
  initial: "reachable env
      \<lparr>formValues = v, slugExistsChildrenDialogOpen = [], mutateCalls = [], telemetryEvents = []\<rparr>"
| edit: "reachable env st \<Longrightarrow> reachable env (st\<lparr>formValues := v\<rparr>)"
| submit: "reachable env st \<Longrightarrow> reachable env (snd (formHandleSubmit env (formValues st) st))"
| confirm: "reachable env st \<Longrightarrow> reachable env (onConfirm env st)"
| dismiss: "reachable env st \<Longrightarrow> reachable env (onOpenChange st)"

text \<open>
  The chosen slug collides for a child when the slugs of its owner's other event types
  (\<^verbatim>\<open>owner.eventTypeSlugs\<close>) contain it.
\<close>

definition slugCollisions :: "FormValues \<Rightarrow> ChildrenEventType list" where
  "slugCollisions values =
    filter (\<lambda>ch. slug values \<in> set (eventTypeSlugs (owner ch))) (children values)"

section \<open>The tab lookup\<close>

definition tabNames :: "string list" where
  "tabNames =
    [ ''setup'', ''availability'', ''apps'', ''limits'', ''recurring'', ''team'', ''advanced'',
      ''workflows'', ''webhooks'' ]"

text \<open>
  \<^verbatim>\<open>querySchema\<close>: \<^verbatim>\<open>z.enum([...]).optional().default("setup")\<close> on the query
  parameter; \<open>None\<close> as argument is an absent parameter, \<open>None\<close> as result a parse failure.
\<close>

definition querySchema :: "string option \<Rightarrow> string option" where
  "querySchema q =
    (case q of
       None \<Rightarrow> Some ''setup''
     | Some n \<Rightarrow> if n \<in> set tabNames then Some n else None)"

datatype view =
    EventSetupTab
  | EventAvailabilityTab
  | EventTeamTab
  | EventLimitsTab
  | EventAdvancedTab
  | EventRecurringTab
  | EventAppsTab
  | EventWorkflowsTab
  | EventWebhooksTab

definition tabMap :: "(string \<times> view) list" where
  "tabMap =
    [ (''setup'', EventSetupTab),
      (''availability'', EventAvailabilityTab),
      (''team'', EventTeamTab),
      (''limits'', EventLimitsTab),
      (''advanced'', EventAdvancedTab),
      (''recurring'', EventRecurringTab),
      (''apps'', EventAppsTab),
      (''workflows'', EventWorkflowsTab),
      (''webhooks'', EventWebhooksTab) ]"

text \<open>\<^verbatim>\<open>tabMap[tabName]\<close>, evaluated while rendering: a lookup that touches no state.\<close>

definition selectTab :: "string \<Rightarrow> page_state \<Rightarrow> view option \<times> page_state" where
  "selectTab tabName st = (map_of tabMap tabName, st)"

section \<open>Example inputs\<close>

text \<open>
  A draft that passes every check, an environment whose layout validator accepts everything,
  and variations of them, for evaluating the handlers at concrete inputs.
\<close>

definition exampleEnv :: env where
  "exampleEnv =
    \<lparr>eventType = \<lparr>et_id = 1, et_metadata = None, et_schedule = None\<rparr>,
     team = None,
     t_locale = (\<lambda>k. k),
     validateIntervalLimitOrder = validateIntervalLimitOrder_model,
     validateBookerLayouts = (\<lambda>settings. None)\<rparr>"

definition emptyMetadata :: Metadata where
  "emptyMetadata = \<lparr>multipleDuration = None, md_bookerLayouts = None, apps = None, config = None\<rparr>"

definition holdMetadata :: Metadata where
  "holdMetadata =
    emptyMetadata\<lparr>apps := Some [(''stripe'', \<lparr>enabled = Some True, paymentOption = Some ''HOLD''\<rparr>)]\<rparr>"

definition aliceChild :: ChildrenEventType where
  "aliceChild =
    \<lparr>owner = \<lparr>owner_id = 7, owner_name = ''Alice'', eventTypeSlugs = [''intro'']\<rparr>,
     child_slug = ''intro'', created = True\<rparr>"

definition exampleDraft :: FormValues where
  "exampleDraft =
    \<lparr>title = ''Intro'', eventTitle = [], eventName = [], slug = ''intro'', length_fv = 30,
     offsetStart = 0, description = [], disableGuests = False, requiresConfirmation = False,
     recurringEvent = None, schedulingType = None, hidden = False, hideCalendarNotes = False,
     hashedLink = None, locations = JArr [], customInputs = JArr [], schedule = None,
     periodType = ''UNLIMITED'', periodDays = 30, periodCountCalendarDays = ''1'',
     periodDates = \<lparr>startDate = 100, endDate = 200\<rparr>, seatsPerTimeSlot = None,
     seatsShowAttendees = None, seatsPerTimeSlotEnabled = False, minimumBookingNotice = 120,
     minimumBookingNoticeInDurationType = 2, beforeBufferTime = 0, afterBufferTime = 0,
     slotInterval = None, metadata = None, destinationCalendar = JNull, successRedirectUrl = [],
     durationLimits = None, bookingLimits = None, children = [], hosts = JArr [],
     bookingFields = JArr [], availability = None, bookerLayouts = None\<rparr>"

definition exampleState :: page_state where
  "exampleState =
    \<lparr>formValues = exampleDraft, slugExistsChildrenDialogOpen = [], mutateCalls = [],
     telemetryEvents = []\<rparr>"

section \<open>Auxiliary facts\<close>

lemmas check_defs =
  bookingLimitsCheck_def durationLimitsCheck_def bookerLayoutsCheck_def bookerLayoutsArg_def
  multipleDurationCheck_def seatsPaymentCheck_def stripePaymentOption_def
  truthy_number_def truthy_string_def truthy_value_def

lemmas example_defs =
  exampleEnv_def exampleDraft_def exampleState_def emptyMetadata_def holdMetadata_def
  aliceChild_def validateIntervalLimitOrder_model_def nestedUnits_def

text \<open>The \<^verbatim>\<open>input\<close> rest and the object sent, computed once for each handler.\<close>

lemma handleSubmit_input_eq:
  "handleSubmit_input v =
    [ (''title'', PStr (title v)),
      (''eventTitle'', PStr (eventTitle v)),
      (''eventName'', PStr (eventName v)),
      (''slug'', PStr (slug v)),
      (''length'', PNum (length_fv v)),
      (''offsetStart'', PNum (offsetStart v)),
      (''description'', PStr (description v)),
      (''disableGuests'', PBool (disableGuests v)),
      (''requiresConfirmation'', PBool (requiresConfirmation v)),
      (''schedulingType'', nullable PStr (schedulingType v)),
      (''hidden'', PBool (hidden v)),
      (''hideCalendarNotes'', PBool (hideCalendarNotes v)),
      (''hashedLink'', nullable PStr (hashedLink v)),
      (''schedule'', nullable PNum (schedule v)),
      (''periodType'', PStr (periodType v)),
      (''periodDays'', PNum (periodDays v)),
      (''minimumBookingNotice'', PNum (minimumBookingNotice v)),
      (''slotInterval'', nullable PNum (slotInterval v)),
      (''destinationCalendar'', PJson (destinationCalendar v)),
      (''successRedirectUrl'', PStr (successRedirectUrl v)),
      (''hosts'', PJson (hosts v)),
      (''bookingFields'', PJson (bookingFields v)),
      (''availability'', nullable PJson (availability v)) ]"
  by (simp add: handleSubmit_input_def rest_without_def valuesObject_def)



lemma handleSubmit_payload_eq:
  "handleSubmit_payload env v =
    [
      (''title'', PStr (title v)),
      (''eventTitle'', PStr (eventTitle v)),
      (''eventName'', PStr (eventName v)),
      (''slug'', PStr (slug v)),
      (''length'', PNum (length_fv v)),
      (''offsetStart'', PNum (offsetStart v)),
      (''description'', PStr (description v)),
      (''disableGuests'', PBool (disableGuests v)),
      (''requiresConfirmation'', PBool (requiresConfirmation v)),
      (''schedulingType'', nullable PStr (schedulingType v)),
      (''hidden'', PBool (hidden v)),
      (''hideCalendarNotes'', PBool (hideCalendarNotes v)),
      (''hashedLink'', nullable PStr (hashedLink v)),
      (''schedule'', nullable PNum (schedule v)),
      (''periodType'', PStr (periodType v)),
      (''periodDays'', PNum (periodDays v)),
      (''minimumBookingNotice'', PNum (minimumBookingNotice v)),
      (''slotInterval'', nullable PNum (slotInterval v)),
      (''destinationCalendar'', PJson (destinationCalendar v)),
      (''successRedirectUrl'', PStr (successRedirectUrl v)),
      (''hosts'', PJson (hosts v)),
      (''bookingFields'', PJson (bookingFields v)),
      (''availability'', nullable PJson (availability v)),
      (''locations'', PJson (locations v)),
      (''recurringEvent'', nullable PJson (recurringEvent v)),
      (''periodStartDate'', PDate (startDate (periodDates v))),
      (''periodEndDate'', PDate (endDate (periodDates v))),
      (''periodCountCalendarDays'', PBool (periodCountCalendarDays v = ''1'')),
      (''id'', PNum (et_id (eventType env))),
      (''beforeEventBuffer'', PNum (beforeBufferTime v)),
      (''afterEventBuffer'', PNum (afterBufferTime v)),
      (''bookingLimits'', nullable PLimits (bookingLimits v)),
      (''durationLimits'', nullable PLimits (durationLimits v)),
      (''seatsPerTimeSlot'', nullable PNum (seatsPerTimeSlot v)),
      (''seatsShowAttendees'', nullable PBool (seatsShowAttendees v)),
      (''metadata'', nullable PMetadata (metadata v)),
      (''customInputs'', PJson (customInputs v)),
      (''children'', PChildren (children v)) ]"
  unfolding handleSubmit_payload_def handleSubmit_input_eq spread_with_def
  by simp

lemma formHandleSubmit_input_eq:
  "formHandleSubmit_input v =
    [ (''title'', PStr (title v)),
      (''eventTitle'', PStr (eventTitle v)),
      (''eventName'', PStr (eventName v)),
      (''slug'', PStr (slug v)),
      (''length'', PNum (length_fv v)),
      (''offsetStart'', PNum (offsetStart v)),
      (''description'', PStr (description v)),
      (''disableGuests'', PBool (disableGuests v)),
      (''requiresConfirmation'', PBool (requiresConfirmation v)),
      (''schedulingType'', nullable PStr (schedulingType v)),
      (''hidden'', PBool (hidden v)),
      (''hideCalendarNotes'', PBool (hideCalendarNotes v)),
      (''hashedLink'', nullable PStr (hashedLink v)),
      (''schedule'', nullable PNum (schedule v)),
      (''periodType'', PStr (periodType v)),
      (''periodDays'', PNum (periodDays v)),
      (''minimumBookingNotice'', PNum (minimumBookingNotice v)),
      (''minimumBookingNoticeInDurationType'', PNum (minimumBookingNoticeInDurationType v)),
      (''slotInterval'', nullable PNum (slotInterval v)),
      (''destinationCalendar'', PJson (destinationCalendar v)),
      (''successRedirectUrl'', PStr (successRedirectUrl v)),
      (''children'', PChildren (children v)),
      (''hosts'', PJson (hosts v)),
      (''bookingFields'', PJson (bookingFields v)),
      (''availability'', nullable PJson (availability v)),
      (''bookerLayouts'', nullable PJson (bookerLayouts v)) ]"
  by (simp add: formHandleSubmit_input_def rest_without_def valuesObject_def)



lemma formHandleSubmit_payload_eq:
  "formHandleSubmit_payload env v =
    [
      (''title'', PStr (title v)),
      (''eventTitle'', PStr (eventTitle v)),
      (''eventName'', PStr (eventName v)),
      (''slug'', PStr (slug v)),
      (''length'', PNum (length_fv v)),
      (''offsetStart'', PNum (offsetStart v)),
      (''description'', PStr (description v)),
      (''disableGuests'', PBool (disableGuests v)),
      (''requiresConfirmation'', PBool (requiresConfirmation v)),
      (''schedulingType'', nullable PStr (schedulingType v)),
      (''hidden'', PBool (hidden v)),
      (''hideCalendarNotes'', PBool (hideCalendarNotes v)),
      (''hashedLink'', nullable PStr (hashedLink v)),
      (''schedule'', nullable PNum (schedule v)),
      (''periodType'', PStr (periodType v)),
      (''periodDays'', PNum (periodDays v)),
      (''minimumBookingNotice'', PNum (minimumBookingNotice v)),
      (''minimumBookingNoticeInDurationType'', PNum (minimumBookingNoticeInDurationType v)),
      (''slotInterval'', nullable PNum (slotInterval v)),
      (''destinationCalendar'', PJson (destinationCalendar v)),
      (''successRedirectUrl'', PStr (successRedirectUrl v)),
      (''children'', PChildren (children v)),
      (''hosts'', PJson (hosts v)),
      (''bookingFields'', PJson (bookingFields v)),
      (''availability'', nullable PJson (availability v)),
      (''bookerLayouts'', nullable PJson (bookerLayouts v)),
      (''locations'', PJson (locations v)),
      (''recurringEvent'', nullable PJson (recurringEvent v)),
      (''periodStartDate'', PDate (startDate (periodDates v))),
      (''periodEndDate'', PDate (endDate (periodDates v))),
      (''periodCountCalendarDays'', PBool (periodCountCalendarDays v = ''1'')),
      (''id'', PNum (et_id (eventType env))),
      (''beforeEventBuffer'', PNum (beforeBufferTime v)),
      (''afterEventBuffer'', PNum (afterBufferTime v)),
      (''bookingLimits'', nullable PLimits (bookingLimits v)),
      (''durationLimits'', nullable PLimits (durationLimits v)),
      (''seatsPerTimeSlot'', nullable PNum (seatsPerTimeSlot v)),
      (''seatsShowAttendees'', nullable PBool (seatsShowAttendees v)),
      (''metadata'', nullable PMetadata (metadata v)),
      (''customInputs'', PJson (customInputs v)) ]"
  unfolding formHandleSubmit_payload_def formHandleSubmit_input_eq spread_with_def
  by simp

section \<open>Multiple durations\<close>

text \<open>
  The test of the default duration reads
  \<^verbatim>\<open>!input.length && !metadata?.multipleDuration?.includes(input.length)\<close>: for a
  \<^verbatim>\<open>length\<close> other than \<open>0\<close> the first conjunct is false, and the default-duration error
  is not thrown, whatever the list holds.
\<close>

lemma default_duration_test_dead:
  "length_fv draft \<noteq> 0 \<Longrightarrow> multipleDurationCheck draft \<noteq> Some MultipleDurationDefaultError"
  by (auto simp: multipleDurationCheck_def split: option.splits)

text \<open>
  Claim C1 does not hold of the code. An empty duration list is rejected with the
  empty-duration-set error, as the claim says. But a draft whose \<^verbatim>\<open>length\<close> is 30 and whose
  duration list holds 15 and 45, which does not contain 30, passes the check: both submit
  handlers accept it and call the mutation with it, where the claim asks for the
  default-duration error and no call.
\<close>

theorem multipleDuration_default_unchecked:
  "handleSubmit exampleEnv (exampleDraft\<lparr>metadata := Some (emptyMetadata\<lparr>multipleDuration := Some []\<rparr>)\<rparr>) exampleState = (Inl MultipleDurationError, exampleState)
   \<and> length_fv (exampleDraft\<lparr>metadata := Some (emptyMetadata\<lparr>multipleDuration := Some [15, 45]\<rparr>)\<rparr>) = 30
   \<and> Option.bind (metadata (exampleDraft\<lparr>metadata := Some (emptyMetadata\<lparr>multipleDuration := Some [15, 45]\<rparr>)\<rparr>)) multipleDuration = Some [15, 45]
   \<and> length_fv (exampleDraft\<lparr>metadata := Some (emptyMetadata\<lparr>multipleDuration := Some [15, 45]\<rparr>)\<rparr>) \<notin> set [15, 45]
   \<and> multipleDurationCheck (exampleDraft\<lparr>metadata := Some (emptyMetadata\<lparr>multipleDuration := Some [15, 45]\<rparr>)\<rparr>) = None
   \<and> handleSubmit exampleEnv (exampleDraft\<lparr>metadata := Some (emptyMetadata\<lparr>multipleDuration := Some [15, 45]\<rparr>)\<rparr>) exampleState
       = (Inr (), mutate (handleSubmit_payload exampleEnv (exampleDraft\<lparr>metadata := Some (emptyMetadata\<lparr>multipleDuration := Some [15, 45]\<rparr>)\<rparr>)) exampleState)
   \<and> formHandleSubmit exampleEnv (exampleDraft\<lparr>metadata := Some (emptyMetadata\<lparr>multipleDuration := Some [15, 45]\<rparr>)\<rparr>) exampleState
       = (Inr (), mutate (formHandleSubmit_payload exampleEnv (exampleDraft\<lparr>metadata := Some (emptyMetadata\<lparr>multipleDuration := Some [15, 45]\<rparr>)\<rparr>)) exampleState)"
  by (simp add: handleSubmit_def formHandleSubmit_def check_defs example_defs)

section \<open>Limits out of order\<close>

text \<open>The modelled validator rejects every map with a pair of units out of order.\<close>

lemma order_violation_detected:
  assumes "(narrower, broader) \<in> set nestedUnits"
    and "limit_of l narrower = Some x" and "limit_of l broader = Some y" and "y < x"
  shows "\<not> validateIntervalLimitOrder_model l"
proof
  assume "validateIntervalLimitOrder_model l"
  then have "\<forall>nb \<in> set nestedUnits.
      (case (limit_of l (fst nb), limit_of l (snd nb)) of (Some a, Some b) \<Rightarrow> a \<le> b | _ \<Rightarrow> True)"
    by (simp add: validateIntervalLimitOrder_model_def list_all_iff)
  from bspec [OF this assms(1)] have
    "(case (limit_of l narrower, limit_of l broader) of (Some a, Some b) \<Rightarrow> a \<le> b | _ \<Rightarrow> True)"
    by simp
  with assms(2,3,4) show False by simp
qed

text \<open>
  Claim C2. With the order of interval limits as the specification describes it: whenever
  the booking limits or the duration limits of a draft give a narrower unit a bound
  strictly greater than the bound of a broader unit it is nested under, both submit handlers
  throw a limit-order error and leave the state as it was, so the mutation is not called.
\<close>

theorem limit_order_rejected:
  assumes "validateIntervalLimitOrder env = validateIntervalLimitOrder_model"
    and "bookingLimits draft = Some l \<or> durationLimits draft = Some l"
    and "(narrower, broader) \<in> set nestedUnits"
    and "limit_of l narrower = Some x" and "limit_of l broader = Some y" and "y < x"
  shows "\<exists>e. LimitOrderInvalid e
            \<and> handleSubmit env draft st = (Inl e, st)
            \<and> formHandleSubmit env draft st = (Inl e, st)
            \<and> mutateCalls (snd (handleSubmit env draft st)) = mutateCalls st
            \<and> mutateCalls (snd (formHandleSubmit env draft st)) = mutateCalls st"
proof -
  have bad: "\<not> validateIntervalLimitOrder env l"
    using assms(1) order_violation_detected [OF assms(3-6)] by simp
  show ?thesis
  proof (cases "bookingLimitsCheck env draft")
    case (Some e)
    then have "e = BookingLimitsError"
      by (auto simp: bookingLimitsCheck_def split: option.splits if_splits)
    with Some show ?thesis
      by (simp add: handleSubmit_def formHandleSubmit_def LimitOrderInvalid_def)
  next
    case None
    with bad assms(2) have "durationLimits draft = Some l"
      by (auto simp: bookingLimitsCheck_def split: option.splits if_splits)
    with bad have "durationLimitsCheck env draft = Some DurationLimitsError"
      by (simp add: durationLimitsCheck_def)
    with None show ?thesis
      by (simp add: handleSubmit_def formHandleSubmit_def LimitOrderInvalid_def)
  qed
qed

text \<open>Duration limits of 120 a day and 60 a month are rejected.\<close>

theorem limit_order_rejected_witness:
  "\<exists>e. LimitOrderInvalid e
     \<and> handleSubmit exampleEnv
         (exampleDraft\<lparr>durationLimits :=
            Some \<lparr>PER_DAY = Some 120, PER_WEEK = None, PER_MONTH = Some 60, PER_YEAR = None\<rparr>\<rparr>)
         exampleState = (Inl e, exampleState)
     \<and> formHandleSubmit exampleEnv
         (exampleDraft\<lparr>durationLimits :=
            Some \<lparr>PER_DAY = Some 120, PER_WEEK = None, PER_MONTH = Some 60, PER_YEAR = None\<rparr>\<rparr>)
         exampleState = (Inl e, exampleState)"
proof -
  let ?l = "\<lparr>PER_DAY = Some 120, PER_WEEK = None, PER_MONTH = Some 60, PER_YEAR = None\<rparr>"
  have h1: "validateIntervalLimitOrder exampleEnv = validateIntervalLimitOrder_model"
    by (simp add: exampleEnv_def)
  have h2: "bookingLimits (exampleDraft\<lparr>durationLimits := Some ?l\<rparr>) = Some ?l
      \<or> durationLimits (exampleDraft\<lparr>durationLimits := Some ?l\<rparr>) = Some ?l"
    by simp
  have h3: "(Day, Month) \<in> set nestedUnits"
    by (simp add: nestedUnits_def)
  have h4: "limit_of ?l Day = Some 120" and h5: "limit_of ?l Month = Some 60"
    by simp_all
  have h6: "(60::int) < 120"
    by simp
  from limit_order_rejected [OF h1 h2 h3 h4 h5 h6, of exampleState] show ?thesis
    by blast
qed

section \<open>Seats and the payment option\<close>

text \<open>
  \<^verbatim>\<open>handleSubmit\<close> rejects every draft with a non-zero seat count and the \<^verbatim>\<open>"HOLD"\<close>
  option, with the seats/payment conflict error when the four earlier checks pass.
\<close>

lemma handleSubmit_rejects_seats_hold:
  assumes "metadata draft = Some m" and "apps m = Some a" and "map_of a ''stripe'' = Some s"
    and "paymentOption s = Some ''HOLD''"
    and "seatsPerTimeSlot draft = Some n" and "n \<noteq> 0"
  shows "(\<exists>e. handleSubmit env draft st = (Inl e, st))
       \<and> mutateCalls (snd (handleSubmit env draft st)) = mutateCalls st
       \<and> (bookingLimitsCheck env draft = None \<and> durationLimitsCheck env draft = None
          \<and> bookerLayoutsCheck env draft = None \<and> multipleDurationCheck draft = None
          \<longrightarrow> handleSubmit env draft st = (Inl SeatsAndNoShowFeeError, st))"
proof -
  have "seatsPaymentCheck draft = Some SeatsAndNoShowFeeError"
    using assms by (simp add: seatsPaymentCheck_def stripePaymentOption_def truthy_number_def)
  then show ?thesis
    by (auto simp: handleSubmit_def split: option.splits)
qed

text \<open>
  Claim C3 does not hold of the code. For a draft with five seats and
  \<^verbatim>\<open>metadata.apps.stripe.paymentOption\<close> equal to \<^verbatim>\<open>"HOLD"\<close>, \<^verbatim>\<open>handleSubmit\<close> throws the
  seats/payment conflict error and calls nothing; the handler given inline to the form,
  which has no such check, accepts the same draft and calls the mutation with it.
\<close>

theorem seats_hold_sent_by_form:
  "seatsPerTimeSlot (exampleDraft\<lparr>seatsPerTimeSlot := Some 5, metadata := Some holdMetadata\<rparr>) = Some 5
   \<and> stripePaymentOption (metadata (exampleDraft\<lparr>seatsPerTimeSlot := Some 5, metadata := Some holdMetadata\<rparr>)) = Some ''HOLD''
   \<and> handleSubmit exampleEnv (exampleDraft\<lparr>seatsPerTimeSlot := Some 5, metadata := Some holdMetadata\<rparr>) exampleState = (Inl SeatsAndNoShowFeeError, exampleState)
   \<and> fst (formHandleSubmit exampleEnv (exampleDraft\<lparr>seatsPerTimeSlot := Some 5, metadata := Some holdMetadata\<rparr>) exampleState) = Inr ()
   \<and> mutateCalls (snd (formHandleSubmit exampleEnv (exampleDraft\<lparr>seatsPerTimeSlot := Some 5, metadata := Some holdMetadata\<rparr>) exampleState))
       = [formHandleSubmit_payload exampleEnv (exampleDraft\<lparr>seatsPerTimeSlot := Some 5, metadata := Some holdMetadata\<rparr>)]"
  by (simp add: handleSubmit_def formHandleSubmit_def mutate_def check_defs example_defs)

section \<open>The two submit handlers compared\<close>

text \<open>
  Claim C4 does not hold of the code: the two submit handlers differ. At a draft with five
  seats and the \<^verbatim>\<open>"HOLD"\<close> option \<^verbatim>\<open>handleSubmit\<close> throws the seats/payment conflict
  error while the inline handler calls the mutation; and for a draft that both accept, the
  object sent by the inline handler has the keys \<^verbatim>\<open>minimumBookingNoticeInDurationType\<close>
  and \<^verbatim>\<open>bookerLayouts\<close>, which the object sent by \<^verbatim>\<open>handleSubmit\<close> does not have.
\<close>

theorem submit_paths_diverge:
  "handleSubmit exampleEnv
      (exampleDraft\<lparr>seatsPerTimeSlot := Some 5, metadata := Some holdMetadata\<rparr>) exampleState
     = (Inl SeatsAndNoShowFeeError, exampleState)
   \<and> formHandleSubmit exampleEnv
      (exampleDraft\<lparr>seatsPerTimeSlot := Some 5, metadata := Some holdMetadata\<rparr>) exampleState
     = (Inr (), mutate (formHandleSubmit_payload exampleEnv
          (exampleDraft\<lparr>seatsPerTimeSlot := Some 5, metadata := Some holdMetadata\<rparr>)) exampleState)
   \<and> fst (handleSubmit exampleEnv exampleDraft exampleState) = Inr ()
   \<and> fst (formHandleSubmit exampleEnv exampleDraft exampleState) = Inr ()
   \<and> map_of (handleSubmit_payload exampleEnv exampleDraft) ''minimumBookingNoticeInDurationType'' = None
   \<and> map_of (formHandleSubmit_payload exampleEnv exampleDraft) ''minimumBookingNoticeInDurationType''
       = Some (PNum 2)
   \<and> map_of (handleSubmit_payload exampleEnv exampleDraft) ''bookerLayouts'' = None
   \<and> map_of (formHandleSubmit_payload exampleEnv exampleDraft) ''bookerLayouts'' = Some PNullish"
proof -
  have "handleSubmit exampleEnv
      (exampleDraft\<lparr>seatsPerTimeSlot := Some 5, metadata := Some holdMetadata\<rparr>) exampleState
     = (Inl SeatsAndNoShowFeeError, exampleState)"
    by (simp add: handleSubmit_def check_defs example_defs)
  moreover have "formHandleSubmit exampleEnv
      (exampleDraft\<lparr>seatsPerTimeSlot := Some 5, metadata := Some holdMetadata\<rparr>) exampleState
     = (Inr (), mutate (formHandleSubmit_payload exampleEnv
          (exampleDraft\<lparr>seatsPerTimeSlot := Some 5, metadata := Some holdMetadata\<rparr>)) exampleState)"
    by (simp add: formHandleSubmit_def check_defs example_defs)
  moreover have "fst (handleSubmit exampleEnv exampleDraft exampleState) = Inr ()"
    by (simp add: handleSubmit_def check_defs exampleDraft_def exampleEnv_def)
  moreover have "fst (formHandleSubmit exampleEnv exampleDraft exampleState) = Inr ()"
    by (simp add: formHandleSubmit_def check_defs exampleDraft_def exampleEnv_def)
  moreover have
    "map_of (handleSubmit_payload exampleEnv exampleDraft) ''minimumBookingNoticeInDurationType'' = None"
    "map_of (handleSubmit_payload exampleEnv exampleDraft) ''bookerLayouts'' = None"
    by (simp_all add: handleSubmit_payload_eq)
  moreover have
    "map_of (formHandleSubmit_payload exampleEnv exampleDraft) ''minimumBookingNoticeInDurationType''
       = Some (PNum 2)"
    "map_of (formHandleSubmit_payload exampleEnv exampleDraft) ''bookerLayouts'' = Some PNullish"
    by (simp_all add: formHandleSubmit_payload_eq nullable_def exampleDraft_def)
  ultimately show ?thesis
    by simp
qed

section \<open>The first failing check aborts the submission\<close>

text \<open>Packaging a split of the sequence of checks at the check that fails.\<close>

lemma abort_at:
  assumes "validationRules = before @ rule # after"
    and "\<forall>b \<in> set before. b env draft = None"
    and "rule env draft = Some e"
    and "handleSubmit env draft st = (Inl e, st)"
  shows "\<exists>before rule after e.
           validationRules = before @ rule # after
         \<and> (\<forall>b \<in> set before. b env draft = None)
         \<and> rule env draft = Some e
         \<and> handleSubmit env draft st = (Inl e, st)
         \<and> mutateCalls (snd (handleSubmit env draft st)) = mutateCalls st"
  using assms by (metis snd_conv)

text \<open>
  In \<^verbatim>\<open>handleSubmit\<close> a failing check aborts the submission: whenever one of the five
  ordered checks fails, the error is the one of the first check that fails, and the state
  is returned as it was.
\<close>

lemma handleSubmit_first_failure_aborts:
  assumes "r \<in> set validationRules" and "r env draft \<noteq> None"
  shows "\<exists>before rule after e.
           validationRules = before @ rule # after
         \<and> (\<forall>b \<in> set before. b env draft = None)
         \<and> rule env draft = Some e
         \<and> handleSubmit env draft st = (Inl e, st)
         \<and> mutateCalls (snd (handleSubmit env draft st)) = mutateCalls st"
proof -
  consider
      (booking) e where "bookingLimitsCheck env draft = Some e"
    | (duration) e where "bookingLimitsCheck env draft = None"
        and "durationLimitsCheck env draft = Some e"
    | (layout) e where "bookingLimitsCheck env draft = None"
        and "durationLimitsCheck env draft = None"
        and "bookerLayoutsCheck env draft = Some e"
    | (multiple) e where "bookingLimitsCheck env draft = None"
        and "durationLimitsCheck env draft = None"
        and "bookerLayoutsCheck env draft = None"
        and "multipleDurationCheck draft = Some e"
    | (seats) e where "bookingLimitsCheck env draft = None"
        and "durationLimitsCheck env draft = None"
        and "bookerLayoutsCheck env draft = None"
        and "multipleDurationCheck draft = None"
        and "seatsPaymentCheck draft = Some e"
    | (none) "bookingLimitsCheck env draft = None"
        and "durationLimitsCheck env draft = None"
        and "bookerLayoutsCheck env draft = None"
        and "multipleDurationCheck draft = None"
        and "seatsPaymentCheck draft = None"
    by (cases "bookingLimitsCheck env draft"; cases "durationLimitsCheck env draft";
        cases "bookerLayoutsCheck env draft"; cases "multipleDurationCheck draft";
        cases "seatsPaymentCheck draft") auto
  then show ?thesis
  proof cases
    case booking
    show ?thesis
    proof (rule abort_at)
      show "validationRules = [] @ bookingLimitsCheck #
          [durationLimitsCheck, bookerLayoutsCheck, (\<lambda>env. multipleDurationCheck),
           (\<lambda>env. seatsPaymentCheck)]"
        by (simp add: validationRules_def)
      show "\<forall>b \<in> set []. b env draft = None" by simp
      show "bookingLimitsCheck env draft = Some e" by (rule booking)
      show "handleSubmit env draft st = (Inl e, st)"
        using booking by (simp add: handleSubmit_def)
    qed
  next
    case duration
    show ?thesis
    proof (rule abort_at)
      show "validationRules = [bookingLimitsCheck] @ durationLimitsCheck #
          [bookerLayoutsCheck, (\<lambda>env. multipleDurationCheck), (\<lambda>env. seatsPaymentCheck)]"
        by (simp add: validationRules_def)
      show "\<forall>b \<in> set [bookingLimitsCheck]. b env draft = None"
        using duration by simp
      show "durationLimitsCheck env draft = Some e" by (rule duration)
      show "handleSubmit env draft st = (Inl e, st)"
        using duration by (simp add: handleSubmit_def)
    qed
  next
    case layout
    show ?thesis
    proof (rule abort_at)
      show "validationRules = [bookingLimitsCheck, durationLimitsCheck] @ bookerLayoutsCheck #
          [(\<lambda>env. multipleDurationCheck), (\<lambda>env. seatsPaymentCheck)]"
        by (simp add: validationRules_def)
      show "\<forall>b \<in> set [bookingLimitsCheck, durationLimitsCheck]. b env draft = None"
        using layout by simp
      show "bookerLayoutsCheck env draft = Some e" by (rule layout)
      show "handleSubmit env draft st = (Inl e, st)"
        using layout by (simp add: handleSubmit_def)
    qed
  next
    case multiple
    show ?thesis
    proof (rule abort_at)
      show "validationRules = [bookingLimitsCheck, durationLimitsCheck, bookerLayoutsCheck]
          @ (\<lambda>env. multipleDurationCheck) # [(\<lambda>env. seatsPaymentCheck)]"
        by (simp add: validationRules_def)
      show "\<forall>b \<in> set [bookingLimitsCheck, durationLimitsCheck, bookerLayoutsCheck].
          b env draft = None"
        using multiple by simp
      show "(\<lambda>env. multipleDurationCheck) env draft = Some e" using multiple by simp
      show "handleSubmit env draft st = (Inl e, st)"
        using multiple by (simp add: handleSubmit_def)
    qed
  next
    case seats
    show ?thesis
    proof (rule abort_at)
      show "validationRules = [bookingLimitsCheck, durationLimitsCheck, bookerLayoutsCheck,
          (\<lambda>env. multipleDurationCheck)] @ (\<lambda>env. seatsPaymentCheck) # []"
        by (simp add: validationRules_def)
      show "\<forall>b \<in> set [bookingLimitsCheck, durationLimitsCheck, bookerLayoutsCheck,
          (\<lambda>env. multipleDurationCheck)]. b env draft = None"
        using seats by simp
      show "(\<lambda>env. seatsPaymentCheck) env draft = Some e" using seats by simp
      show "handleSubmit env draft st = (Inl e, st)"
        using seats by (simp add: handleSubmit_def)
    qed
  next
    case none
    with assms(1) have "r env draft = None"
      by (auto simp: validationRules_def)
    with assms(2) show ?thesis by simp
  qed
qed

text \<open>
  Claim C5 does not hold of the code. The fifth check of the sequence, the seats/payment
  conflict check, fails for a draft with three seats and the \<^verbatim>\<open>"HOLD"\<close> option; the
  handler that the form runs on submission does not have this check, accepts the draft and
  calls the mutation, so that a draft that fails validation reaches the transport.
\<close>

theorem failed_check_reaches_mutation:
  "length validationRules = 5
   \<and> (validationRules ! 4) exampleEnv (exampleDraft\<lparr>seatsPerTimeSlot := Some 3, metadata := Some holdMetadata\<rparr>) = Some SeatsAndNoShowFeeError
   \<and> handleSubmit exampleEnv (exampleDraft\<lparr>seatsPerTimeSlot := Some 3, metadata := Some holdMetadata\<rparr>) exampleState = (Inl SeatsAndNoShowFeeError, exampleState)
   \<and> fst (formHandleSubmit exampleEnv (exampleDraft\<lparr>seatsPerTimeSlot := Some 3, metadata := Some holdMetadata\<rparr>) exampleState) = Inr ()
   \<and> length (mutateCalls (snd (formHandleSubmit exampleEnv (exampleDraft\<lparr>seatsPerTimeSlot := Some 3, metadata := Some holdMetadata\<rparr>) exampleState)))
       = length (mutateCalls exampleState) + 1"
  by (simp add: validationRules_def handleSubmit_def formHandleSubmit_def mutate_def
      check_defs example_defs)

section \<open>The host-schedules key after the preparation\<close>

text \<open>
  Claim C6, as amended. When the metadata of the record is not null, the key
  \<^verbatim>\<open>useHostSchedulesForTeamEvent\<close> is present after the preparation exactly when the record
  is a team event; when the metadata is null the key is absent in either case. For a record
  that is not a team event the key is absent. For a team event whose metadata is not null and
  does not set the key, it is set to \<open>True\<close> exactly when the schedule of the record is
  truthy, that is neither null nor \<open>0\<close>.
\<close>

theorem initMetadata_hostSchedules:
  "(et_metadata (eventType env) \<noteq> None \<longrightarrow>
      (hostSchedulesKey (initMetadata env) \<noteq> None) = truthy_value (team env))
   \<and> (et_metadata (eventType env) = None \<longrightarrow> hostSchedulesKey (initMetadata env) = None)
   \<and> (\<not> truthy_value (team env) \<longrightarrow> hostSchedulesKey (initMetadata env) = None)
   \<and> (truthy_value (team env) \<and> et_metadata (eventType env) \<noteq> None
        \<and> hostSchedulesKey (et_metadata (eventType env)) = None \<longrightarrow>
      hostSchedulesKey (initMetadata env)
        = Some (\<exists>n. et_schedule (eventType env) = Some n \<and> n \<noteq> 0))"
  by (auto simp: initMetadata_def hostSchedulesKey_def truthy_number_def
      split: option.splits)

text \<open>
  A team event with a schedule and no explicit setting gets \<open>True\<close>; an event without a team
  loses the key.
\<close>

theorem initMetadata_hostSchedules_witness:
  "hostSchedulesKey (initMetadata
      (exampleEnv\<lparr>eventType := \<lparr>et_id = 1, et_metadata = Some emptyMetadata, et_schedule = Some 12\<rparr>,
                  team := Some (JObj [])\<rparr>)) = Some True
   \<and> hostSchedulesKey (initMetadata
      (exampleEnv\<lparr>eventType := \<lparr>et_id = 1,
          et_metadata = Some (emptyMetadata\<lparr>config := Some \<lparr>useHostSchedulesForTeamEvent = Some True\<rparr>\<rparr>),
          et_schedule = Some 12\<rparr>\<rparr>)) = None"
  using initMetadata_hostSchedules [of
      "exampleEnv\<lparr>eventType := \<lparr>et_id = 1, et_metadata = Some emptyMetadata, et_schedule = Some 12\<rparr>,
                  team := Some (JObj [])\<rparr>"]
    initMetadata_hostSchedules [of
      "exampleEnv\<lparr>eventType := \<lparr>et_id = 1,
          et_metadata = Some (emptyMetadata\<lparr>config := Some \<lparr>useHostSchedulesForTeamEvent = Some True\<rparr>\<rparr>),
          et_schedule = Some 12\<rparr>\<rparr>"]
  by (simp add: exampleEnv_def emptyMetadata_def hostSchedulesKey_def truthy_value_def)

text \<open>
  The claim as first stated fails: a team event whose metadata is null has no such key after
  the preparation, and a team event with the schedule \<open>0\<close>, which is not null, gets
  \<open>False\<close>.
\<close>

theorem initMetadata_counterexample:
  "truthy_value (team (exampleEnv\<lparr>team := Some (JObj [])\<rparr>))
   \<and> hostSchedulesKey (initMetadata (exampleEnv\<lparr>team := Some (JObj [])\<rparr>)) = None
   \<and> et_schedule (eventType
        (exampleEnv\<lparr>eventType := \<lparr>et_id = 1, et_metadata = Some emptyMetadata, et_schedule = Some 0\<rparr>,
                    team := Some (JObj [])\<rparr>)) \<noteq> None
   \<and> hostSchedulesKey (initMetadata
        (exampleEnv\<lparr>eventType := \<lparr>et_id = 1, et_metadata = Some emptyMetadata, et_schedule = Some 0\<rparr>,
                    team := Some (JObj [])\<rparr>)) = Some False"
  by (simp add: initMetadata_def hostSchedulesKey_def truthy_value_def truthy_number_def
      exampleEnv_def emptyMetadata_def)

section \<open>The objects sent by the two handlers\<close>

text \<open>
  When \<^verbatim>\<open>handleSubmit\<close> accepts a draft, it calls the mutation once, with an object in which
  \<^verbatim>\<open>periodStartDate\<close> and \<^verbatim>\<open>periodEndDate\<close> are the two dates of the draft's
  \<^verbatim>\<open>periodDates\<close>, \<^verbatim>\<open>periodCountCalendarDays\<close> is the boolean saying whether the draft's
  value is \<^verbatim>\<open>"1"\<close>, and the keys \<^verbatim>\<open>minimumBookingNoticeInDurationType\<close> and
  \<^verbatim>\<open>seatsPerTimeSlotEnabled\<close> do not occur.
\<close>

lemma handleSubmit_payload_shape:
  assumes "fst (handleSubmit env draft st) = Inr ()"
  shows "\<exists>payload.
           mutateCalls (snd (handleSubmit env draft st)) = mutateCalls st @ [payload]
         \<and> map_of payload ''periodStartDate'' = Some (PDate (startDate (periodDates draft)))
         \<and> map_of payload ''periodEndDate'' = Some (PDate (endDate (periodDates draft)))
         \<and> map_of payload ''periodCountCalendarDays''
             = Some (PBool (periodCountCalendarDays draft = ''1''))
         \<and> \<not> has_key payload ''minimumBookingNoticeInDurationType''
         \<and> \<not> has_key payload ''seatsPerTimeSlotEnabled''"
proof -
  have sent: "snd (handleSubmit env draft st) = mutate (handleSubmit_payload env draft) st"
    using assms by (auto simp: handleSubmit_def split: option.splits)
  have "map_of (handleSubmit_payload env draft) ''periodStartDate''
      = Some (PDate (startDate (periodDates draft)))"
    by (simp add: handleSubmit_payload_eq)
  moreover have "map_of (handleSubmit_payload env draft) ''periodEndDate''
      = Some (PDate (endDate (periodDates draft)))"
    by (simp add: handleSubmit_payload_eq)
  moreover have "map_of (handleSubmit_payload env draft) ''periodCountCalendarDays''
      = Some (PBool (periodCountCalendarDays draft = ''1''))"
    by (simp add: handleSubmit_payload_eq)
  moreover have "\<not> has_key (handleSubmit_payload env draft) ''minimumBookingNoticeInDurationType''"
    by (simp add: has_key_def handleSubmit_payload_eq)
  moreover have "\<not> has_key (handleSubmit_payload env draft) ''seatsPerTimeSlotEnabled''"
    by (simp add: has_key_def handleSubmit_payload_eq)
  ultimately show ?thesis
    using sent by (simp add: mutate_def)
qed

text \<open>
  Claim C7 does not hold of the code. The handler that the form runs on submission accepts
  the example draft and calls the mutation with an object that has the two period dates
  and the boolean, but also the key \<^verbatim>\<open>minimumBookingNoticeInDurationType\<close> with the value
  of the draft: its destructuring does not take that key out of the rest, as the one of
  \<^verbatim>\<open>handleSubmit\<close> does.
\<close>

theorem form_payload_keeps_ui_field:
  "fst (formHandleSubmit exampleEnv exampleDraft exampleState) = Inr ()
   \<and> mutateCalls (snd (formHandleSubmit exampleEnv exampleDraft exampleState))
       = [formHandleSubmit_payload exampleEnv exampleDraft]
   \<and> map_of (formHandleSubmit_payload exampleEnv exampleDraft) ''periodStartDate''
       = Some (PDate 100)
   \<and> map_of (formHandleSubmit_payload exampleEnv exampleDraft) ''periodEndDate''
       = Some (PDate 200)
   \<and> map_of (formHandleSubmit_payload exampleEnv exampleDraft) ''periodCountCalendarDays''
       = Some (PBool True)
   \<and> \<not> has_key (formHandleSubmit_payload exampleEnv exampleDraft) ''seatsPerTimeSlotEnabled''
   \<and> has_key (formHandleSubmit_payload exampleEnv exampleDraft)
       ''minimumBookingNoticeInDurationType''
   \<and> map_of (formHandleSubmit_payload exampleEnv exampleDraft)
       ''minimumBookingNoticeInDurationType'' = Some (PNum 2)
   \<and> \<not> has_key (handleSubmit_payload exampleEnv exampleDraft)
       ''minimumBookingNoticeInDurationType''"
proof -
  have "formHandleSubmit exampleEnv exampleDraft exampleState
      = (Inr (), mutate (formHandleSubmit_payload exampleEnv exampleDraft) exampleState)"
    by (simp add: formHandleSubmit_def check_defs exampleEnv_def exampleDraft_def)
  then have "fst (formHandleSubmit exampleEnv exampleDraft exampleState) = Inr ()"
    and "mutateCalls (snd (formHandleSubmit exampleEnv exampleDraft exampleState))
      = [formHandleSubmit_payload exampleEnv exampleDraft]"
    by (simp_all add: mutate_def exampleState_def)
  moreover have
    "map_of (formHandleSubmit_payload exampleEnv exampleDraft) ''periodStartDate''
       = Some (PDate 100)"
    "map_of (formHandleSubmit_payload exampleEnv exampleDraft) ''periodEndDate''
       = Some (PDate 200)"
    "map_of (formHandleSubmit_payload exampleEnv exampleDraft) ''periodCountCalendarDays''
       = Some (PBool True)"
    "map_of (formHandleSubmit_payload exampleEnv exampleDraft)
       ''minimumBookingNoticeInDurationType'' = Some (PNum 2)"
    by (simp_all add: formHandleSubmit_payload_eq exampleDraft_def)
  moreover have
    "\<not> has_key (formHandleSubmit_payload exampleEnv exampleDraft) ''seatsPerTimeSlotEnabled''"
    by (simp add: has_key_def formHandleSubmit_payload_eq)
  moreover have
    "\<not> has_key (handleSubmit_payload exampleEnv exampleDraft)
       ''minimumBookingNoticeInDurationType''"
    by (simp add: has_key_def handleSubmit_payload_eq)
  ultimately show ?thesis
    by (simp add: has_key_def)
qed

section \<open>The slug dialog\<close>

text \<open>
  No handler of the page puts anything into \<^verbatim>\<open>slugExistsChildrenDialogOpen\<close>: in every state
  that the page reaches the list is empty, and the dialog is closed.
\<close>

lemma dialog_never_opens:
  assumes "reachable env st"
  shows "slugExistsChildrenDialogOpen st = []"
  using assms
proof (induction rule: reachable.induct)
  case (initial v)
  show ?case by simp
next
  case (edit st v)
  then show ?case by simp
next
  case (submit st)
  then show ?case
    by (auto simp: formHandleSubmit_def mutate_def split: option.splits)
next
  case (confirm st)
  show ?case by (simp add: onConfirm_def Let_def)
next
  case (dismiss st)
  show ?case by (simp add: onOpenChange_def)
qed

text \<open>
  Claim C8 does not hold of the code. The draft has the slug \<^verbatim>\<open>intro\<close> and one child whose
  owner, Alice, has another event type with the slug \<^verbatim>\<open>intro\<close>: the chosen slug collides.
  Submitting the form in the state that holds this draft, a state the page reaches, leaves
  the dialog closed and calls the mutation at once, where the claim asks for a dialog
  naming Alice and for no call before the confirmation.
\<close>

theorem slug_collision_opens_no_dialog:
  "slug (exampleDraft\<lparr>children := [aliceChild]\<rparr>) = ''intro''
   \<and> slugCollisions (exampleDraft\<lparr>children := [aliceChild]\<rparr>) = [aliceChild]
   \<and> owner_name (owner aliceChild) = ''Alice''
   \<and> reachable exampleEnv (exampleState\<lparr>formValues := exampleDraft\<lparr>children := [aliceChild]\<rparr>\<rparr>)
   \<and> \<not> dialogOpen (exampleState\<lparr>formValues := exampleDraft\<lparr>children := [aliceChild]\<rparr>\<rparr>)
   \<and> fst (formHandleSubmit exampleEnv (formValues (exampleState\<lparr>formValues := exampleDraft\<lparr>children := [aliceChild]\<rparr>\<rparr>)) (exampleState\<lparr>formValues := exampleDraft\<lparr>children := [aliceChild]\<rparr>\<rparr>)) = Inr ()
   \<and> \<not> dialogOpen (snd (formHandleSubmit exampleEnv (formValues (exampleState\<lparr>formValues := exampleDraft\<lparr>children := [aliceChild]\<rparr>\<rparr>)) (exampleState\<lparr>formValues := exampleDraft\<lparr>children := [aliceChild]\<rparr>\<rparr>)))
   \<and> mutateCalls (snd (formHandleSubmit exampleEnv (formValues (exampleState\<lparr>formValues := exampleDraft\<lparr>children := [aliceChild]\<rparr>\<rparr>)) (exampleState\<lparr>formValues := exampleDraft\<lparr>children := [aliceChild]\<rparr>\<rparr>)))
       = [formHandleSubmit_payload exampleEnv (exampleDraft\<lparr>children := [aliceChild]\<rparr>)]"
proof -
  have "slug (exampleDraft\<lparr>children := [aliceChild]\<rparr>) = ''intro''"
    and "slugCollisions (exampleDraft\<lparr>children := [aliceChild]\<rparr>) = [aliceChild]"
    and "owner_name (owner aliceChild) = ''Alice''"
    by (simp_all add: slugCollisions_def exampleDraft_def aliceChild_def)
  moreover have state: "exampleState\<lparr>formValues := exampleDraft\<lparr>children := [aliceChild]\<rparr>\<rparr> =
      \<lparr>formValues = exampleDraft\<lparr>children := [aliceChild]\<rparr>, slugExistsChildrenDialogOpen = [], mutateCalls = [],
       telemetryEvents = []\<rparr>"
    by (simp add: exampleState_def)
  moreover have "reachable exampleEnv
      \<lparr>formValues = exampleDraft\<lparr>children := [aliceChild]\<rparr>, slugExistsChildrenDialogOpen = [], mutateCalls = [],
       telemetryEvents = []\<rparr>"
    by (rule reachable.initial)
  moreover have "formHandleSubmit exampleEnv (exampleDraft\<lparr>children := [aliceChild]\<rparr>) (exampleState\<lparr>formValues := exampleDraft\<lparr>children := [aliceChild]\<rparr>\<rparr>)
      = (Inr (), mutate (formHandleSubmit_payload exampleEnv (exampleDraft\<lparr>children := [aliceChild]\<rparr>)) (exampleState\<lparr>formValues := exampleDraft\<lparr>children := [aliceChild]\<rparr>\<rparr>))"
    by (simp add: formHandleSubmit_def check_defs exampleEnv_def exampleDraft_def)
  ultimately show ?thesis
    by (simp add: mutate_def dialogOpen_def)
qed

section \<open>The tab lookup is a function of the name\<close>

text \<open>
  Claim C9. An absent \<^verbatim>\<open>tabName\<close> parses to \<^verbatim>\<open>setup\<close>, every name of the enumeration parses
  to itself and nothing else parses; the keys of \<^verbatim>\<open>tabMap\<close> are exactly the nine names, each
  once, with nine different views; and looking a valid name up gives its view and leaves
  the state as it was, so that a second lookup gives the same view.
\<close>

theorem tab_lookup:
  "querySchema None = Some ''setup''
   \<and> (\<forall>n \<in> set tabNames. querySchema (Some n) = Some n)
   \<and> (\<forall>q n. querySchema q = Some n \<longrightarrow> n \<in> set tabNames)
   \<and> set (map fst tabMap) = set tabNames
   \<and> distinct (map fst tabMap)
   \<and> distinct (map snd tabMap)
   \<and> (\<forall>n \<in> set tabNames. \<exists>v.
         selectTab n st = (Some v, st)
       \<and> selectTab n (snd (selectTab n st)) = (Some v, st))"
proof -
  have "querySchema None = Some ''setup''"
    by (simp add: querySchema_def)
  moreover have "\<forall>n \<in> set tabNames. querySchema (Some n) = Some n"
    by (simp add: querySchema_def)
  moreover have "\<forall>q n. querySchema q = Some n \<longrightarrow> n \<in> set tabNames"
    by (auto simp: querySchema_def tabNames_def split: option.splits if_splits)
  moreover have keys: "set (map fst tabMap) = set tabNames"
    by (auto simp: tabMap_def tabNames_def)
  moreover have "distinct (map fst tabMap)"
    by (simp add: tabMap_def)
  moreover have "distinct (map snd tabMap)"
    by (simp add: tabMap_def)
  moreover have "\<forall>n \<in> set tabNames. \<exists>v.
         selectTab n st = (Some v, st) \<and> selectTab n (snd (selectTab n st)) = (Some v, st)"
  proof
    fix n assume "n \<in> set tabNames"
    with keys have "n \<in> fst ` set tabMap" by simp
    then have "map_of tabMap n \<noteq> None"
      by (simp add: map_of_eq_None_iff)
    then show "\<exists>v. selectTab n st = (Some v, st)
        \<and> selectTab n (snd (selectTab n st)) = (Some v, st)"
      by (auto simp: selectTab_def)
  qed
  ultimately show ?thesis by blast
qed

text \<open>The lookup of \<^verbatim>\<open>limits\<close>.\<close>

theorem tab_lookup_witness:
  "''limits'' \<in> set tabNames
   \<and> querySchema (Some ''limits'') = Some ''limits''
   \<and> (\<exists>v. selectTab ''limits'' exampleState = (Some v, exampleState))"
proof -
  have h: "''limits'' \<in> set tabNames"
    by (simp add: tabNames_def)
  with tab_lookup [of exampleState] show ?thesis
    by blast
qed

section \<open>Falsy seat counts\<close>

text \<open>None of the first four checks throws the seats/payment conflict error.\<close>

lemma check_error_kinds:
  "bookingLimitsCheck env draft \<noteq> Some SeatsAndNoShowFeeError"
  "durationLimitsCheck env draft \<noteq> Some SeatsAndNoShowFeeError"
  "bookerLayoutsCheck env draft \<noteq> Some SeatsAndNoShowFeeError"
  "multipleDurationCheck draft \<noteq> Some SeatsAndNoShowFeeError"
  by (auto simp: bookingLimitsCheck_def durationLimitsCheck_def bookerLayoutsCheck_def
      multipleDurationCheck_def Let_def split: option.splits if_splits)

text \<open>
  Claim C10, as amended. When \<^verbatim>\<open>seatsPerTimeSlot\<close> is null or \<open>0\<close>, the seats check passes
  whatever the payment option is, \<^verbatim>\<open>handleSubmit\<close> does not throw the seats/payment conflict
  error, and it calls the mutation when the other four checks pass. The conflict error is
  thrown only for a non-zero seat count (and the \<^verbatim>\<open>"HOLD"\<close> option).
\<close>

theorem seats_falsy_passes:
  "(seatsPerTimeSlot draft = None \<or> seatsPerTimeSlot draft = Some 0 \<longrightarrow>
       seatsPaymentCheck draft = None
     \<and> fst (handleSubmit env draft st) \<noteq> Inl SeatsAndNoShowFeeError
     \<and> (bookingLimitsCheck env draft = None \<and> durationLimitsCheck env draft = None
        \<and> bookerLayoutsCheck env draft = None \<and> multipleDurationCheck draft = None \<longrightarrow>
          handleSubmit env draft st = (Inr (), mutate (handleSubmit_payload env draft) st)))
   \<and> (fst (handleSubmit env draft st) = Inl SeatsAndNoShowFeeError \<longrightarrow>
        (\<exists>n. seatsPerTimeSlot draft = Some n \<and> n \<noteq> 0)
      \<and> stripePaymentOption (metadata draft) = Some ''HOLD'')"
proof -
  have falsy: "seatsPaymentCheck draft = None"
    if "seatsPerTimeSlot draft = None \<or> seatsPerTimeSlot draft = Some 0"
    using that by (auto simp: seatsPaymentCheck_def truthy_number_def)
  have raised: "seatsPaymentCheck draft = Some SeatsAndNoShowFeeError"
    if "fst (handleSubmit env draft st) = Inl SeatsAndNoShowFeeError"
    using that check_error_kinds
    by (auto simp: handleSubmit_def seatsPaymentCheck_def split: option.splits if_splits)
  have truthy: "(\<exists>n. seatsPerTimeSlot draft = Some n \<and> n \<noteq> 0)
      \<and> stripePaymentOption (metadata draft) = Some ''HOLD''"
    if "seatsPaymentCheck draft = Some SeatsAndNoShowFeeError"
    using that by (auto simp: seatsPaymentCheck_def truthy_number_def split: option.splits if_splits)
  have "fst (handleSubmit env draft st) \<noteq> Inl SeatsAndNoShowFeeError"
    if "seatsPerTimeSlot draft = None \<or> seatsPerTimeSlot draft = Some 0"
    using falsy [OF that] raised by auto
  moreover have "handleSubmit env draft st = (Inr (), mutate (handleSubmit_payload env draft) st)"
    if "seatsPerTimeSlot draft = None \<or> seatsPerTimeSlot draft = Some 0"
      and "bookingLimitsCheck env draft = None" and "durationLimitsCheck env draft = None"
      and "bookerLayoutsCheck env draft = None" and "multipleDurationCheck draft = None"
    using falsy [OF that(1)] that(2-5) by (simp add: handleSubmit_def)
  ultimately show ?thesis
    using falsy raised truthy by blast
qed

text \<open>Zero seats with the \<^verbatim>\<open>"HOLD"\<close> option: the draft is accepted.\<close>

theorem seats_falsy_passes_witness:
  "handleSubmit exampleEnv
      (exampleDraft\<lparr>seatsPerTimeSlot := Some 0, metadata := Some holdMetadata\<rparr>) exampleState
    = (Inr (), mutate (handleSubmit_payload exampleEnv
        (exampleDraft\<lparr>seatsPerTimeSlot := Some 0, metadata := Some holdMetadata\<rparr>)) exampleState)"
proof -
  let ?d = "exampleDraft\<lparr>seatsPerTimeSlot := Some 0, metadata := Some holdMetadata\<rparr>"
  have h1: "seatsPerTimeSlot ?d = None \<or> seatsPerTimeSlot ?d = Some 0"
    by simp
  have h2: "bookingLimitsCheck exampleEnv ?d = None \<and> durationLimitsCheck exampleEnv ?d = None
      \<and> bookerLayoutsCheck exampleEnv ?d = None \<and> multipleDurationCheck ?d = None"
    by (simp add: check_defs example_defs)
  from seats_falsy_passes [of "?d" exampleEnv exampleState] h1 h2 show ?thesis
    by blast
qed

text \<open>
  The claim as first stated fails: a seat count of \<open>- 1\<close> is truthy without being strictly
  positive, and the conflict error is thrown for it.
\<close>

theorem seats_negative_counterexample:
  "handleSubmit exampleEnv
      (exampleDraft\<lparr>seatsPerTimeSlot := Some (- 1), metadata := Some holdMetadata\<rparr>) exampleState
    = (Inl SeatsAndNoShowFeeError, exampleState)
   \<and> \<not> (0 :: int) < - 1"
  by (simp add: handleSubmit_def check_defs example_defs)

end
